theory Spec2Isabelle
  imports Complex_Main
begin

section \<open>Emotion distributions\<close>

text \<open>
  The component \<open>MoodTracker.js\<close> keeps an emotion distribution as an object with the five
  keys \<open>neutral, happy, sad, angry, surprised\<close>, always written in that order, so that
  \<open>Object.keys\<close> enumerates them in that order. JavaScript numbers are modelled as reals:
  rounding, infinities and NaN are outside the model.
\<close>

datatype label = Neutral | Happy | Sad | Angry | Surprised

record emotions =
  neutral :: real
  happy :: real
  sad :: real
  angry :: real
  surprised :: real

definition emotion_keys :: "label list" where
  "emotion_keys = [Neutral, Happy, Sad, Angry, Surprised]"

fun emotion_get :: "emotions \<Rightarrow> label \<Rightarrow> real" where
  "emotion_get e Neutral = neutral e"
| "emotion_get e Happy = happy e"
| "emotion_get e Sad = sad e"
| "emotion_get e Angry = angry e"
| "emotion_get e Surprised = surprised e"

fun emotion_set :: "emotions \<Rightarrow> label \<Rightarrow> real \<Rightarrow> emotions" where
  "emotion_set e Neutral v = e\<lparr>neutral := v\<rparr>"
| "emotion_set e Happy v = e\<lparr>happy := v\<rparr>"
| "emotion_set e Sad v = e\<lparr>sad := v\<rparr>"
| "emotion_set e Angry v = e\<lparr>angry := v\<rparr>"
| "emotion_set e Surprised v = e\<lparr>surprised := v\<rparr>"

text \<open>\<open>Object.values(emotions).reduce((sum, val) => sum + val, 0)\<close>\<close>

definition emotion_total :: "emotions \<Rightarrow> real" where
  "emotion_total e = foldl (\<lambda>sum val. sum + val) 0 (map (emotion_get e) emotion_keys)"

text \<open>
  The normalisation loop, used by both \<open>getRandomEmotions\<close> and
  \<open>calculateEmotionsFromLandmarks\<close>: the total is computed once, then every key is
  divided by it.
\<close>

definition normalize :: "emotions \<Rightarrow> emotions" where
  "normalize e =
     (let total = emotion_total e
      in foldl (\<lambda>em key. emotion_set em key (emotion_get em key / total)) e emotion_keys)"

text \<open>
  \<open>Object.keys(emotions).reduce((a, b) => emotions[a] > emotions[b] ? a : b)\<close>:
  a reduction with no initial value, so the accumulator starts at the first key.
\<close>

definition dominantEmotion :: "emotions \<Rightarrow> label" where
  "dominantEmotion e =
     foldl (\<lambda>a b. if emotion_get e a > emotion_get e b then a else b)
       (hd emotion_keys) (tl emotion_keys)"

text \<open>
  The values returned by the successive calls of \<open>Math.random()\<close> in one loop over the
  keys, named by the key at which the call is made. Each lies in \<open>[0, 1)\<close>.
\<close>

type_synonym draws = "label \<Rightarrow> real"

definition random_draws :: "draws \<Rightarrow> bool" where
  "random_draws rnd = (0 \<le> rnd Neutral \<and> rnd Neutral < 1 \<and> 0 \<le> rnd Happy \<and> rnd Happy < 1
     \<and> 0 \<le> rnd Sad \<and> rnd Sad < 1 \<and> 0 \<le> rnd Angry \<and> rnd Angry < 1
     \<and> 0 \<le> rnd Surprised \<and> rnd Surprised < 1)"

definition steady_draws :: draws where
  "steady_draws key = 1 / 2"

section \<open>Per-emotion heuristics\<close>

definition calculateSadnessScore :: "bool \<Rightarrow> real \<Rightarrow> real \<Rightarrow> real" where
  "calculateSadnessScore isMouthTurnedDown mouthCornerDiff mouthRatio =
     (let score = 0;
          score = (if isMouthTurnedDown then score + 0.4 else score);
          score = (if mouthCornerDiff > 4 then score + 0.2
                   else if mouthCornerDiff > 2.5 then score + 0.1 else score);
          score = (if mouthRatio < 1.5 then score + 0.15 else score)
      in min 0.7 score)"

definition calculateAngerScore :: "bool \<Rightarrow> bool \<Rightarrow> real \<Rightarrow> real \<Rightarrow> real" where
  "calculateAngerScore eyebrowLowered eyebrowsAngledInward leftAngle rightAngle =
     (let score = 0;
          score = (if eyebrowLowered then score + 0.3 else score);
          score = (if eyebrowsAngledInward then score + 0.25
                   else if leftAngle < - 15 \<or> rightAngle > 15 then score + 0.15 else score)
      in min 0.6 score)"

definition calculateSurpriseScore :: "bool \<Rightarrow> bool \<Rightarrow> bool \<Rightarrow> real" where
  "calculateSurpriseScore eyebrowRaised eyesWideOpen isMouthOpen =
     (let score = 0;
          score = (if eyebrowRaised then score + 0.4 else score);
          score = (if eyesWideOpen then score + 0.3 else score);
          score = (if isMouthOpen then score + 0.3 else score)
      in min 0.9 score)"

definition calculateHappinessScore :: "real \<Rightarrow> bool \<Rightarrow> real" where
  "calculateHappinessScore mouthRatio isMouthTurnedDown =
     (let score = 0;
          score = (if mouthRatio > 3.0 then score + 0.8
                   else if mouthRatio > 2.5 then score + 0.6
                   else if mouthRatio > 2.0 then score + 0.4
                   else if mouthRatio > 1.5 then score + 0.2 else score);
          score = (if isMouthTurnedDown then max 0 (score - 0.2) else score)
      in min 0.95 score)"

section \<open>Landmarks and feature extraction\<close>

text \<open>
  A landmark is a 2D point (a third coordinate, when present, is never read). A landmark
  array may hold \<open>undefined\<close> entries; an index beyond the length reads \<open>undefined\<close> too.
  The argument of \<open>calculateEmotionsFromLandmarks\<close> itself may be \<open>null\<close> or
  \<open>undefined\<close>.
\<close>

type_synonym point = "real \<times> real"

type_synonym landmarks = "point option list"

datatype js_error = TypeError

definition at_index :: "landmarks \<Rightarrow> nat \<Rightarrow> point option" where
  "at_index lms i = (if i < length lms then lms ! i else None)"

text \<open>\<open>landmarks[i] || landmarks[j]\<close>: a point (an array) is truthy, \<open>undefined\<close> is not.\<close>

definition pick :: "landmarks \<Rightarrow> nat \<Rightarrow> nat \<Rightarrow> point option" where
  "pick lms i j = (case at_index lms i of Some p \<Rightarrow> Some p | None \<Rightarrow> at_index lms j)"

text \<open>Reading a coordinate of \<open>undefined\<close> throws a TypeError.\<close>

definition deref :: "point option \<Rightarrow> js_error + point" where
  "deref v = (case v of None \<Rightarrow> Inl TypeError | Some p \<Rightarrow> Inr p)"

definition and_then :: "js_error + 'a \<Rightarrow> ('a \<Rightarrow> js_error + 'b) \<Rightarrow> js_error + 'b" where
  "and_then r k = (case r of Inl err \<Rightarrow> Inl err | Inr v \<Rightarrow> k v)"

record face_points =
  mouthLeft :: point
  mouthRight :: point
  upperLip :: point
  lowerLip :: point
  mouthCenter :: point
  leftEye :: point
  rightEye :: point
  leftEyeTop :: point
  leftEyeBottom :: point
  rightEyeTop :: point
  rightEyeBottom :: point
  leftEyebrowOuter :: point
  leftEyebrowInner :: point
  rightEyebrowOuter :: point
  rightEyebrowInner :: point

text \<open>
  The key facial points of lines 495-513, each a preferred mesh index with a low-index
  substitute. Every one of them is dereferenced by the measurements that follow, so the
  first that is \<open>undefined\<close> makes the \<open>try\<close> block throw; all of this happens before
  the \<open>emotions\<close> object is written to. (\<open>noseTip\<close>, \<open>leftCheek\<close>, \<open>rightCheek\<close> and
  \<open>forehead\<close> are picked in the source too but never read.)
\<close>

definition select_points :: "landmarks \<Rightarrow> js_error + face_points" where
  "select_points lms =
     and_then (deref (pick lms 61 0)) (\<lambda>mouthLeft.
     and_then (deref (pick lms 291 1)) (\<lambda>mouthRight.
     and_then (deref (pick lms 13 2)) (\<lambda>upperLip.
     and_then (deref (pick lms 14 3)) (\<lambda>lowerLip.
     and_then (deref (pick lms 0 4)) (\<lambda>mouthCenter.
     and_then (deref (pick lms 159 5)) (\<lambda>leftEye.
     and_then (deref (pick lms 386 6)) (\<lambda>rightEye.
     and_then (deref (pick lms 159 7)) (\<lambda>leftEyeTop.
     and_then (deref (pick lms 145 8)) (\<lambda>leftEyeBottom.
     and_then (deref (pick lms 386 9)) (\<lambda>rightEyeTop.
     and_then (deref (pick lms 374 10)) (\<lambda>rightEyeBottom.
     and_then (deref (pick lms 65 11)) (\<lambda>leftEyebrowOuter.
     and_then (deref (pick lms 105 12)) (\<lambda>leftEyebrowInner.
     and_then (deref (pick lms 295 13)) (\<lambda>rightEyebrowOuter.
     and_then (deref (pick lms 334 14)) (\<lambda>rightEyebrowInner.
     Inr \<lparr>mouthLeft = mouthLeft, mouthRight = mouthRight, upperLip = upperLip,
          lowerLip = lowerLip, mouthCenter = mouthCenter, leftEye = leftEye,
          rightEye = rightEye, leftEyeTop = leftEyeTop, leftEyeBottom = leftEyeBottom,
          rightEyeTop = rightEyeTop, rightEyeBottom = rightEyeBottom,
          leftEyebrowOuter = leftEyebrowOuter, leftEyebrowInner = leftEyebrowInner,
          rightEyebrowOuter = rightEyebrowOuter,
          rightEyebrowInner = rightEyebrowInner\<rparr>)))))))))))))))"

text \<open>
  \<open>Math.sqrt(Math.pow(q[0] - p[0], 2) + Math.pow(q[1] - p[1], 2))\<close>, the distance that
  the source writes out for the mouth width and height.
\<close>

definition distance :: "point \<Rightarrow> point \<Rightarrow> real" where
  "distance p q = sqrt ((fst q - fst p)\<^sup>2 + (snd q - snd p)\<^sup>2)"

text \<open>\<open>Math.atan2(y, x)\<close> on reals, in radians.\<close>

definition atan2 :: "real \<Rightarrow> real \<Rightarrow> real" where
  "atan2 y x =
     (if x > 0 then arctan (y / x)
      else if x < 0 then (if y \<ge> 0 then arctan (y / x) + pi else arctan (y / x) - pi)
      else if y > 0 then pi / 2
      else if y < 0 then - (pi / 2)
      else 0)"

record features =
  mouthWidth :: real
  mouthHeight :: real
  mouthCornerDiff :: real
  isMouthTurnedDown :: bool
  isMouthOpen :: bool
  mouthRatio :: real
  leftEyebrowHeight :: real
  rightEyebrowHeight :: real
  eyebrowRaised :: bool
  eyebrowLowered :: bool
  leftEyebrowAngle :: real
  rightEyebrowAngle :: real
  eyebrowsAngledInward :: bool
  leftEyeOpenness :: real
  rightEyeOpenness :: real
  eyesWideOpen :: bool

text \<open>
  The core metrics of lines 525-579. \<open>p[0]\<close> is \<open>fst p\<close> and \<open>p[1]\<close> is \<open>snd p\<close>;
  \<open>mouthHeight || 1\<close> is 1 exactly when the height is 0.
\<close>

definition measure_face :: "face_points \<Rightarrow> features" where
  "measure_face fp =
     (let mouthWidth = distance (mouthLeft fp) (mouthRight fp);
          mouthHeight = distance (lowerLip fp) (upperLip fp);
          mouthCornerDiff = \<bar>snd (mouthLeft fp) - snd (mouthRight fp)\<bar>;
          isMouthTurnedDown = (snd (mouthLeft fp) > snd (mouthCenter fp)
                               \<and> snd (mouthRight fp) > snd (mouthCenter fp));
          isMouthOpen = (mouthHeight > mouthWidth * 0.3);
          mouthRatio = mouthWidth / (if mouthHeight = 0 then 1 else mouthHeight);
          leftEyebrowHeight = \<bar>snd (leftEyebrowOuter fp) - snd (leftEye fp)\<bar>;
          rightEyebrowHeight = \<bar>snd (rightEyebrowOuter fp) - snd (rightEye fp)\<bar>;
          eyebrowRaised = (leftEyebrowHeight > 25 \<or> rightEyebrowHeight > 25);
          eyebrowLowered = (leftEyebrowHeight < 15 \<or> rightEyebrowHeight < 15);
          leftEyebrowAngle =
            atan2 (snd (leftEyebrowOuter fp) - snd (leftEyebrowInner fp))
                  (fst (leftEyebrowOuter fp) - fst (leftEyebrowInner fp)) * (180 / pi);
          rightEyebrowAngle =
            atan2 (snd (rightEyebrowInner fp) - snd (rightEyebrowOuter fp))
                  (fst (rightEyebrowInner fp) - fst (rightEyebrowOuter fp)) * (180 / pi);
          eyebrowsAngledInward = (leftEyebrowAngle < - 15 \<and> rightEyebrowAngle > 15);
          leftEyeOpenness = \<bar>snd (leftEyeTop fp) - snd (leftEyeBottom fp)\<bar>;
          rightEyeOpenness = \<bar>snd (rightEyeTop fp) - snd (rightEyeBottom fp)\<bar>;
          eyesWideOpen = (leftEyeOpenness > 15 \<or> rightEyeOpenness > 15)
      in \<lparr>mouthWidth = mouthWidth, mouthHeight = mouthHeight,
           mouthCornerDiff = mouthCornerDiff, isMouthTurnedDown = isMouthTurnedDown,
           isMouthOpen = isMouthOpen, mouthRatio = mouthRatio,
           leftEyebrowHeight = leftEyebrowHeight, rightEyebrowHeight = rightEyebrowHeight,
           eyebrowRaised = eyebrowRaised, eyebrowLowered = eyebrowLowered,
           leftEyebrowAngle = leftEyebrowAngle, rightEyebrowAngle = rightEyebrowAngle,
           eyebrowsAngledInward = eyebrowsAngledInward,
           leftEyeOpenness = leftEyeOpenness, rightEyeOpenness = rightEyeOpenness,
           eyesWideOpen = eyesWideOpen\<rparr>)"

definition extract_features :: "landmarks \<Rightarrow> js_error + features" where
  "extract_features lms = and_then (select_points lms) (\<lambda>fp. Inr (measure_face fp))"

section \<open>Scoring, jitter and normalisation\<close>

text \<open>Lines 602-624: the five assignments to the \<open>emotions\<close> object.\<close>

definition assign_scores :: "features \<Rightarrow> emotions \<Rightarrow> emotions" where
  "assign_scores f em =
     (let sadnessScore =
            calculateSadnessScore (isMouthTurnedDown f) (mouthCornerDiff f) (mouthRatio f);
          angerScore =
            calculateAngerScore (eyebrowLowered f) (eyebrowsAngledInward f)
              (leftEyebrowAngle f) (rightEyebrowAngle f);
          surpriseScore =
            calculateSurpriseScore (eyebrowRaised f) (eyesWideOpen f) (isMouthOpen f);
          happinessScore = calculateHappinessScore (mouthRatio f) (isMouthTurnedDown f);
          neutralScore = 0.4 - (sadnessScore + angerScore + surpriseScore + happinessScore) / 2
      in em\<lparr>sad := max 0.1 sadnessScore, angry := max 0.1 angerScore,
             surprised := max 0.1 surpriseScore, happy := min 0.7 happinessScore,
             neutral := max 0.05 neutralScore\<rparr>)"

text \<open>Lines 627-632: one random draw per key, then the clamp at 0.\<close>

definition add_noise :: "draws \<Rightarrow> emotions \<Rightarrow> emotions" where
  "add_noise rnd e =
     foldl (\<lambda>em key.
              let em = emotion_set em key (emotion_get em key + (rnd key * 0.05 - 0.025))
              in emotion_set em key (max 0 (emotion_get em key)))
       e emotion_keys"

definition default_emotions :: emotions where
  "default_emotions =
     \<lparr>neutral = 0.17, happy = 0.50, sad = 0.10, angry = 0.08, surprised = 0.15\<rparr>"

text \<open>
  The \<open>try\<close> block of \<open>calculateEmotionsFromLandmarks\<close>, as a transformer of the
  \<open>emotions\<close> object: it returns how the block ended (normally, or by throwing) together
  with the object as it was at that moment.
\<close>

definition try_block :: "landmarks \<Rightarrow> draws \<Rightarrow> emotions \<Rightarrow> (js_error + unit) \<times> emotions" where
  "try_block lms rnd em =
     (case extract_features lms of
        Inl err \<Rightarrow> (Inl err, em)
      | Inr f \<Rightarrow> (Inr (), normalize (add_noise rnd (assign_scores f em))))"

text \<open>
  Both the normal exit of the \<open>try\<close> block and the \<open>catch\<close> clause return the
  \<open>emotions\<close> object.
\<close>

definition calculateEmotionsFromLandmarks :: "landmarks option \<Rightarrow> draws \<Rightarrow> emotions" where
  "calculateEmotionsFromLandmarks landmarks rnd =
     (let em = default_emotions
      in case landmarks of
           None \<Rightarrow> em
         | Some lms \<Rightarrow>
             if length lms < 20 then em
             else (case try_block lms rnd em of
                     (Inr u, em') \<Rightarrow> em'
                   | (Inl err, em') \<Rightarrow> em'))"

text \<open>
  The position of a label in the key order, and the selection the specification words
  describe (4.2): the argmax over the fixed label order, a tie going to the earliest label.
\<close>

definition label_index :: "label \<Rightarrow> nat" where
  "label_index key =
     (case key of Neutral \<Rightarrow> 0 | Happy \<Rightarrow> 1 | Sad \<Rightarrow> 2 | Angry \<Rightarrow> 3 | Surprised \<Rightarrow> 4)"

definition argmax_earliest :: "emotions \<Rightarrow> label" where
  "argmax_earliest e =
     foldl (\<lambda>best key. if emotion_get e key > emotion_get e best then key else best)
       Neutral [Happy, Sad, Angry, Surprised]"

fun label_name :: "label \<Rightarrow> string" where
  "label_name Neutral = ''neutral''"
| "label_name Happy = ''happy''"
| "label_name Sad = ''sad''"
| "label_name Angry = ''angry''"
| "label_name Surprised = ''surprised''"

section \<open>Fallback simulator\<close>

text \<open>The remainder operator \<open>%\<close> of JavaScript on integers: the sign follows the dividend.\<close>

definition js_rem :: "int \<Rightarrow> int \<Rightarrow> int" where
  "js_rem a b = sgn a * (\<bar>a\<bar> mod \<bar>b\<bar>)"

text \<open>\<open>(time % 30000) / 30000\<close> of \<open>handleFallbackDetection\<close>.\<close>

definition cycle_position :: "int \<Rightarrow> real" where
  "cycle_position time = real_of_int (js_rem time 30000) / 30000"

text \<open>
  The object literal that \<open>getRandomEmotions\<close> builds before normalising: one call of
  \<open>Math.random()\<close> per key.
\<close>

definition biased_profile :: "real \<Rightarrow> draws \<Rightarrow> emotions" where
  "biased_profile cyclePosition rnd =
     (if cyclePosition < 0.3 then
        \<lparr>neutral = 0.3 + rnd Neutral * 0.2, happy = 0.4 + rnd Happy * 0.3,
         sad = rnd Sad * 0.2, angry = rnd Angry * 0.1, surprised = rnd Surprised * 0.1\<rparr>
      else if cyclePosition < 0.6 then
        \<lparr>neutral = 0.6 + rnd Neutral * 0.2, happy = 0.1 + rnd Happy * 0.2,
         sad = 0.1 + rnd Sad * 0.1, angry = rnd Angry * 0.1, surprised = rnd Surprised * 0.1\<rparr>
      else
        \<lparr>neutral = 0.3 + rnd Neutral * 0.3, happy = 0.1 + rnd Happy * 0.3,
         sad = 0.1 + rnd Sad * 0.3, angry = 0.05 + rnd Angry * 0.15,
         surprised = 0.05 + rnd Surprised * 0.15\<rparr>)"

definition getRandomEmotions :: "real \<Rightarrow> draws \<Rightarrow> emotions" where
  "getRandomEmotions cyclePosition rnd = normalize (biased_profile cyclePosition rnd)"

definition in_range :: "real \<Rightarrow> real \<Rightarrow> real \<Rightarrow> bool" where
  "in_range lo hi v = (lo \<le> v \<and> v < hi)"

text \<open>
  A value drawn within \<open>[lo, hi)\<close>: the low end plus the draw times the width of the range.
\<close>

definition drawn_from :: "real \<Rightarrow> real \<Rightarrow> real \<Rightarrow> real \<Rightarrow> bool" where
  "drawn_from lo hi draw v = (v = lo + draw * (hi - lo) \<and> in_range lo hi v)"

section \<open>Stored records and the component state\<close>

text \<open>
  Of the face and hand detail objects only the \<open>fallbackMode\<close> flag is kept; the counts,
  bounding box and confidences shown in the UI are left out.
\<close>

datatype details = FallbackDetails | ModelDetails

text \<open>A document of the \<open>MoodLog\<close> collection; dates are milliseconds since the epoch.\<close>

record moodLog =
  log_id :: nat
  log_mood :: string
  log_date :: int
  log_notes :: string
  log_emotionScores :: "emotions option"
  log_faceDetails :: "details option"
  log_handDetails :: "details option"
  log_timestamp :: int

text \<open>
  The \<open>timestamp\<close> field of a request body: absent, a date string (the component sends
  \<open>toISOString()\<close>), a string that is no date, or a number of milliseconds.
\<close>

datatype timestamp_field = Missing | IsoDate int | Unparsable | Millis int

record moodData =
  body_mood :: "string option"
  body_notes :: "string option"
  body_emotionScores :: "emotions option"
  body_faceDetails :: "details option"
  body_handDetails :: "details option"
  body_timestamp :: timestamp_field

text \<open>
  The React state of the component, the properties of the video element that
  \<open>runDetection\<close> reads, and two counters that are not in the source: \<open>pending\<close>, the
  number of AI-mode cycles whose promise has not settled yet, and \<open>captureRequests\<close>, the
  number of calls of \<open>startVideo\<close>. A model is either \<open>null\<close> (\<open>False\<close>) or loaded.
\<close>

record tracker =
  mood :: string
  emotionScores :: "emotions option"
  "notes" :: string
  history :: "moodLog list"
  faceModel :: bool
  handModel :: bool
  isVideoReady :: bool
  modelsLoaded :: bool
  faceDetails :: "details option"
  handDetails :: "details option"
  error :: string
  isDetecting :: bool
  videoMounted :: bool
  paused :: bool
  ended :: bool
  readyState :: nat
  pending :: nat
  captureRequests :: nat

section \<open>Detection cycle\<close>

definition handleFallbackDetection :: "int \<Rightarrow> draws \<Rightarrow> tracker \<Rightarrow> tracker" where
  "handleFallbackDetection time rnd tr =
     (let cyclePosition = cycle_position time;
          basicEmotions = getRandomEmotions cyclePosition rnd
      in tr\<lparr>emotionScores := Some basicEmotions,
             mood := label_name (dominantEmotion basicEmotions),
             faceDetails := Some FallbackDetails,
             handDetails := Some FallbackDetails,
             isDetecting := False\<rparr>)"

text \<open>The guard at the head of \<open>runDetection\<close> (lines 169-173), negated.\<close>

definition capture_live :: "tracker \<Rightarrow> bool" where
  "capture_live tr =
     (\<not> (\<not> videoMounted tr \<or> \<not> isVideoReady tr \<or> paused tr \<or> ended tr \<or> readyState tr < 2))"

definition useAIMode :: "tracker \<Rightarrow> bool" where
  "useAIMode tr = (faceModel tr \<and> handModel tr)"

text \<open>
  One tick of the 50 ms interval. In AI mode the two estimates are started and the
  function returns while their promise is pending; the fallback runs to completion inside
  the tick. \<open>time\<close> and \<open>rnd\<close> are the clock reading and the random draws the fallback
  would use. A synchronous throw of the two estimate calls (the outer \<open>catch\<close>) is not
  modelled.
\<close>

definition runDetection :: "int \<Rightarrow> draws \<Rightarrow> tracker \<Rightarrow> tracker" where
  "runDetection time rnd tr =
     (if \<not> capture_live tr then tr
      else
        let tr = tr\<lparr>isDetecting := True\<rparr>
        in if useAIMode tr then tr\<lparr>pending := pending tr + 1\<rparr>
           else handleFallbackDetection time rnd tr)"

text \<open>
  How the promise of one AI-mode cycle settles: with a first face (whose landmarks may be
  missing), with no face, or by rejection.
\<close>

datatype inference = FirstFace "landmarks option" | NoFaces | Rejection

definition detectionSettled :: "inference \<Rightarrow> int \<Rightarrow> draws \<Rightarrow> tracker \<Rightarrow> tracker" where
  "detectionSettled outcome time rnd tr =
     (let tr = tr\<lparr>pending := pending tr - 1\<rparr>
      in case outcome of
           FirstFace landmarks \<Rightarrow>
             (let emotions = calculateEmotionsFromLandmarks landmarks rnd
              in tr\<lparr>emotionScores := Some emotions,
                     mood := label_name (dominantEmotion emotions),
                     faceDetails := Some ModelDetails,
                     handDetails := Some ModelDetails,
                     isDetecting := False\<rparr>)
         | NoFaces \<Rightarrow>
             tr\<lparr>faceDetails := Some ModelDetails, handDetails := Some ModelDetails,
                isDetecting := False\<rparr>
         | Rejection \<Rightarrow> handleFallbackDetection time rnd tr)"

section \<open>Model loading\<close>

datatype promise = Pending | Fulfilled | Rejected string

text \<open>A promise settles once: later calls of \<open>resolve\<close> or \<open>reject\<close> do nothing.\<close>

definition settle :: "promise \<Rightarrow> promise \<Rightarrow> promise" where
  "settle p outcome = (if p = Pending then outcome else p)"

text \<open>
  The script element as \<open>loadScript\<close> leaves it: both handlers are assigned (lines 69-70)
  and never cleared.
\<close>

record script_element =
  onload :: bool
  onerror :: bool

definition created_script :: script_element where
  "created_script = \<lparr>onload = True, onerror = True\<rparr>"

datatype script_event = LoadEvent | ErrorEvent | TimerFired

text \<open>
  What each callback does to the promise. The timer callback of line 74 rejects only
  \<open>if (!script.onload)\<close>.
\<close>

fun deliver :: "string \<Rightarrow> script_element \<Rightarrow> promise \<Rightarrow> script_event \<Rightarrow> promise" where
  "deliver src el p LoadEvent = (if onload el then settle p Fulfilled else p)"
| "deliver src el p ErrorEvent =
     (if onerror el then settle p (Rejected (''Failed to load script: '' @ src)) else p)"
| "deliver src el p TimerFired =
     (if \<not> onload el then settle p (Rejected (''Script load timeout: '' @ src)) else p)"

text \<open>
  The promise returned by \<open>loadScript(src)\<close>, after the events that the browser and the
  10-second timer deliver for that script, in their order.
\<close>

definition loadScript :: "string \<Rightarrow> script_event list \<Rightarrow> promise" where
  "loadScript src events = foldl (deliver src created_script) Pending events"

definition tf_url :: string where
  "tf_url = ''https://cdn.jsdelivr.net/npm/@tensorflow/tfjs@3.11.0/dist/tf.min.js''"

definition face_url :: string where
  "face_url = ''https://cdn.jsdelivr.net/npm/@tensorflow-models/face-landmarks-detection@0.0.3/dist/face-landmarks-detection.min.js''"

definition hand_url :: string where
  "hand_url = ''https://cdn.jsdelivr.net/npm/@tensorflow-models/handpose@0.0.7/dist/handpose.min.js''"

definition startVideo :: "tracker \<Rightarrow> tracker" where
  "startVideo tr = tr\<lparr>captureRequests := captureRequests tr + 1\<rparr>"

text \<open>
  The \<open>catch\<close> handler at the end of the chain of \<open>loadLibraries\<close> (lines 115-121).
  Once \<open>error\<close> is non-empty the component renders only the notice of lines 771-784, so
  the video element is no longer mounted.
\<close>

definition load_failed :: "string \<Rightarrow> tracker \<Rightarrow> tracker" where
  "load_failed message tr =
     (startVideo tr)\<lparr>error := ''AI detection couldn't be loaded: '' @ message
                          @ ''. Using basic mode.'',
                     modelsLoaded := True,
                     videoMounted := False\<rparr>"

text \<open>
  The chain of \<open>loadLibraries\<close>: three scripts in sequence, then \<open>startVideo\<close> and the two
  model loads (\<open>models\<close> is the promise of their \<open>Promise.all\<close>); \<open>tf\<close>, \<open>faceLib\<close> and
  \<open>handLib\<close> are the events delivered for each script. A promise that stays pending
  leaves the rest of the chain, and the \<open>catch\<close> handler, unexecuted.
\<close>

definition loadLibraries ::
  "script_event list \<Rightarrow> script_event list \<Rightarrow> script_event list \<Rightarrow> promise \<Rightarrow> tracker \<Rightarrow> tracker" where
  "loadLibraries tf faceLib handLib models tr =
     (let tr = tr\<lparr>error := []\<rparr>
      in case loadScript tf_url tf of
           Pending \<Rightarrow> tr
         | Rejected message \<Rightarrow> load_failed message tr
         | Fulfilled \<Rightarrow>
        (case loadScript face_url faceLib of
           Pending \<Rightarrow> tr
         | Rejected message \<Rightarrow> load_failed message tr
         | Fulfilled \<Rightarrow>
        (case loadScript hand_url handLib of
           Pending \<Rightarrow> tr
         | Rejected message \<Rightarrow> load_failed message tr
         | Fulfilled \<Rightarrow>
        (let tr = startVideo tr
         in case models of
              Pending \<Rightarrow> tr
            | Rejected message \<Rightarrow> load_failed message tr
            | Fulfilled \<Rightarrow> tr\<lparr>faceModel := True, handModel := True, modelsLoaded := True\<rparr>))))"

section \<open>Persistence API\<close>

datatype reply = LogReply nat moodLog | HistoryReply nat "moodLog list" | ErrorReply nat string

text \<open>
  The collection: its documents in insertion order, the next identifier to assign, and
  whether the database answers.
\<close>

record store =
  docs :: "moodLog list"
  next_id :: nat
  reachable :: bool

text \<open>
  The cast of the schema to a date: a time value is a date only within 8.64e15
  milliseconds of the epoch.
\<close>

definition cast_date :: "int \<Rightarrow> int option" where
  "cast_date t = (if \<bar>t\<bar> \<le> 8640000000000000 then Some t else None)"

text \<open>\<open>timestamp || Date.now()\<close>, then the cast.\<close>

definition timestamp_of :: "int \<Rightarrow> timestamp_field \<Rightarrow> int option" where
  "timestamp_of now field =
     (case field of
        Missing \<Rightarrow> cast_date now
      | IsoDate t \<Rightarrow> cast_date t
      | Unparsable \<Rightarrow> None
      | Millis t \<Rightarrow> cast_date (if t = 0 then now else t))"

text \<open>
  \<open>addMoodLog\<close>: the document is built with the schema's defaults; \<open>save\<close> rejects when
  validation fails (\<open>mood\<close> is required, the timestamp must be a date) or the database
  does not answer, and the handler then replies 500.
\<close>

definition addMoodLog :: "int \<Rightarrow> moodData \<Rightarrow> store \<Rightarrow> reply \<times> store" where
  "addMoodLog now body st =
     (case (body_mood body, timestamp_of now (body_timestamp body)) of
        (Some m, Some t) \<Rightarrow>
          if m = [] \<or> \<not> reachable st then (ErrorReply 500 ''Error saving mood log'', st)
          else
            let newMoodLog =
                  \<lparr>log_id = next_id st, log_mood = m, log_date = now,
                   log_notes = (case body_notes body of None \<Rightarrow> [] | Some n \<Rightarrow> n),
                   log_emotionScores = body_emotionScores body,
                   log_faceDetails = body_faceDetails body,
                   log_handDetails = body_handDetails body,
                   log_timestamp = t\<rparr>
            in (LogReply 200 newMoodLog,
                st\<lparr>docs := docs st @ [newMoodLog], next_id := next_id st + 1\<rparr>)
      | _ \<Rightarrow> (ErrorReply 500 ''Error saving mood log'', st))"

text \<open>
  \<open>MoodLog.find().sort({ timestamp: -1 }).limit(20)\<close>. The sort is modelled as a stable
  one; the database does not promise an order among equal timestamps.
\<close>

definition getMoodHistory :: "store \<Rightarrow> reply" where
  "getMoodHistory st =
     (if reachable st
      then HistoryReply 200 (take 20 (sort_key (\<lambda>d. - log_timestamp d) (docs st)))
      else ErrorReply 500 ''Error fetching mood history'')"

section \<open>Saving from the component\<close>

text \<open>
  \<open>handleSaveMood\<close> up to the \<open>fetch\<close>: the request body it posts at clock reading
  \<open>now\<close>, or nothing when \<open>mood\<close> is empty.
\<close>

definition handleSaveMood :: "int \<Rightarrow> tracker \<Rightarrow> moodData option" where
  "handleSaveMood now tr =
     (if mood tr = [] then None
      else Some \<lparr>body_mood = Some (mood tr), body_notes = Some (notes tr),
                 body_emotionScores = emotionScores tr,
                 body_faceDetails = faceDetails tr, body_handDetails = handDetails tr,
                 body_timestamp = IsoDate now\<rparr>)"

datatype fetch_result = Answer reply | NetworkFailure

text \<open>
  The \<open>then\<close> and \<open>catch\<close> handlers of the \<open>fetch\<close> (lines 728-746); \<open>response.ok\<close>
  holds for the statuses 200 to 299. The alerts are not modelled.
\<close>

definition saveSettled :: "fetch_result \<Rightarrow> tracker \<Rightarrow> tracker" where
  "saveSettled res tr =
     (case res of
        Answer (LogReply status savedData) \<Rightarrow>
          if 200 \<le> status \<and> status \<le> 299
          then tr\<lparr>history := savedData # take 19 (history tr), notes := []\<rparr>
          else tr
      | _ \<Rightarrow> tr)"

text \<open>
  A whole save action against a server: the requests that were posted, and the state once
  the response has been handled.
\<close>

definition save_action ::
  "int \<Rightarrow> (moodData \<Rightarrow> fetch_result) \<Rightarrow> tracker \<Rightarrow> moodData list \<times> tracker" where
  "save_action now server tr =
     (case handleSaveMood now tr of
        None \<Rightarrow> ([], tr)
      | Some body \<Rightarrow> ([body], saveSettled (server body) tr))"

section \<open>Concrete inputs\<close>

text \<open>
  Twenty landmarks: a mouth 3 wide and 1 high, both eyebrows 20 above the eyes, the left
  eye 16 open.
\<close>

definition tie_points :: "point list" where
  "tie_points = [(0, 0), (3, 0), (0, 0), (0, 0), (0, 0), (0, 20), (0, 20), (0, 0), (0, 16),
     (0, 0), (0, 0), (0, 0), (0, 0), (0, 0), (1, 0), (0, 0), (0, 0), (0, 0), (0, 0), (0, 0)]"

text \<open>The same face with the lips at \<open>(0, 0)\<close> and \<open>(0, 1/2)\<close>: a mouth 3 wide, 1/2 high.\<close>

definition parted_points :: "point list" where
  "parted_points = [(0, 0), (3, 0), (0, 0), (0, 0), (0, 0), (0, 20), (0, 20), (0, 0), (0, 16),
     (0, 0), (0, 0), (0, 0), (0, 0), (0, 0), (0, 1 / 2), (0, 0), (0, 0), (0, 0), (0, 0),
     (0, 0)]"

text \<open>
  The component as React creates it, and with capture running and both models loaded.
\<close>

definition initial_tracker :: tracker where
  "initial_tracker =
     \<lparr>mood = [], emotionScores = None, notes = [], history = [], faceModel = False,
      handModel = False, isVideoReady = False, modelsLoaded = False, faceDetails = None,
      handDetails = None, error = [], isDetecting = False, videoMounted = False,
      paused = False, ended = False, readyState = 0, pending = 0, captureRequests = 0\<rparr>"

definition armed_tracker :: tracker where
  "armed_tracker =
     initial_tracker\<lparr>videoMounted := True, isVideoReady := True, readyState := 4,
       faceModel := True, handModel := True, modelsLoaded := True\<rparr>"

text \<open>A store holding one record stamped 2000, and a request stamped 1000.\<close>

definition newer_log :: moodLog where
  "newer_log =
     \<lparr>log_id = 0, log_mood = ''happy'', log_date = 2000, log_notes = [],
      log_emotionScores = None, log_faceDetails = None, log_handDetails = None,
      log_timestamp = 2000\<rparr>"

definition seeded_store :: store where
  "seeded_store = \<lparr>docs = [newer_log], next_id = 1, reachable = True\<rparr>"

definition backdated_body :: moodData where
  "backdated_body =
     \<lparr>body_mood = Some ''sad'', body_notes = Some [], body_emotionScores = None,
      body_faceDetails = None, body_handDetails = None, body_timestamp = IsoDate 1000\<rparr>"

definition backdated_log :: moodLog where
  "backdated_log =
     \<lparr>log_id = 1, log_mood = ''sad'', log_date = 5000, log_notes = [],
      log_emotionScores = None, log_faceDetails = None, log_handDetails = None,
      log_timestamp = 1000\<rparr>"

definition fresh_body :: moodData where
  "fresh_body =
     \<lparr>body_mood = Some ''sad'', body_notes = Some [], body_emotionScores = None,
      body_faceDetails = None, body_handDetails = None, body_timestamp = IsoDate 5000\<rparr>"

definition fresh_log :: moodLog where
  "fresh_log =
     \<lparr>log_id = 1, log_mood = ''sad'', log_date = 5000, log_notes = [],
      log_emotionScores = None, log_faceDetails = None, log_handDetails = None,
      log_timestamp = 5000\<rparr>"

section \<open>Facts about distributions\<close>

lemma emotion_total_eq:
  "emotion_total e = neutral e + happy e + sad e + angry e + surprised e"
  by (simp add: emotion_total_def emotion_keys_def)

lemma normalize_eq:
  "normalize e = \<lparr>neutral = neutral e / emotion_total e, happy = happy e / emotion_total e,
     sad = sad e / emotion_total e, angry = angry e / emotion_total e,
     surprised = surprised e / emotion_total e\<rparr>"
  by (simp add: normalize_def emotion_keys_def Let_def)

lemma add_noise_eq:
  "add_noise rnd e = \<lparr>neutral = max 0 (neutral e + (rnd Neutral * 0.05 - 0.025)),
     happy = max 0 (happy e + (rnd Happy * 0.05 - 0.025)),
     sad = max 0 (sad e + (rnd Sad * 0.05 - 0.025)),
     angry = max 0 (angry e + (rnd Angry * 0.05 - 0.025)),
     surprised = max 0 (surprised e + (rnd Surprised * 0.05 - 0.025))\<rparr>"
  by (simp add: add_noise_def emotion_keys_def Let_def)

lemma normalize_total:
  assumes "emotion_total e \<noteq> 0"
  shows "emotion_total (normalize e) = 1"
  using assms by (simp add: normalize_eq emotion_total_eq add_divide_distrib [symmetric])

lemma normalize_nonneg:
  assumes "0 < emotion_total e" "0 \<le> emotion_get e key"
  shows "0 \<le> emotion_get (normalize e) key"
  using assms by (cases key) (simp_all add: normalize_eq)

lemma normalized_distribution:
  assumes pos: "0 < emotion_total e"
    and nonneg: "\<And>key. 0 \<le> emotion_get e key"
  shows "0 \<le> neutral (normalize e) \<and> 0 \<le> happy (normalize e) \<and> 0 \<le> sad (normalize e)
    \<and> 0 \<le> angry (normalize e) \<and> 0 \<le> surprised (normalize e)
    \<and> neutral (normalize e) + happy (normalize e) + sad (normalize e) + angry (normalize e)
        + surprised (normalize e) = 1"
proof -
  have "0 \<le> emotion_get (normalize e) key" for key
    using pos nonneg by (rule normalize_nonneg)
  from this [of Neutral] this [of Happy] this [of Sad] this [of Angry] this [of Surprised]
  have "0 \<le> neutral (normalize e)" "0 \<le> happy (normalize e)" "0 \<le> sad (normalize e)"
    "0 \<le> angry (normalize e)" "0 \<le> surprised (normalize e)"
    by simp_all
  moreover have "emotion_total (normalize e) = 1" using pos by (intro normalize_total) simp
  ultimately show ?thesis by (simp add: emotion_total_eq)
qed

lemma assign_scores_sad: "0.1 \<le> sad (assign_scores f em)"
  by (simp add: assign_scores_def Let_def)

lemma add_noise_nonneg: "0 \<le> emotion_get (add_noise rnd e) key"
  by (cases key) (simp_all add: add_noise_eq)

lemma add_noise_sad_pos:
  assumes "0 \<le> rnd Sad" "0.1 \<le> sad e"
  shows "0.075 \<le> sad (add_noise rnd e)"
  using assms by (simp add: add_noise_eq max_def)

lemma scored_total_pos:
  assumes "0 \<le> rnd Sad"
  shows "0 < emotion_total (add_noise rnd (assign_scores f em))"
proof -
  let ?e = "add_noise rnd (assign_scores f em)"
  have "0.075 \<le> sad ?e" using assms assign_scores_sad by (rule add_noise_sad_pos)
  moreover have "0 \<le> neutral ?e" "0 \<le> happy ?e" "0 \<le> angry ?e" "0 \<le> surprised ?e"
    using add_noise_nonneg [of rnd "assign_scores f em" Neutral]
      add_noise_nonneg [of rnd "assign_scores f em" Happy]
      add_noise_nonneg [of rnd "assign_scores f em" Angry]
      add_noise_nonneg [of rnd "assign_scores f em" Surprised]
    by simp_all
  ultimately show ?thesis by (simp add: emotion_total_eq)
qed

lemma calculate_cases:
  assumes "20 \<le> length lms"
  shows "calculateEmotionsFromLandmarks (Some lms) rnd =
     (case extract_features lms of
        Inl err \<Rightarrow> default_emotions
      | Inr f \<Rightarrow> normalize (add_noise rnd (assign_scores f default_emotions)))"
  using assms
  by (simp add: calculateEmotionsFromLandmarks_def try_block_def split: sum.splits)

section \<open>Facts about feature extraction\<close>

lemma at_index_map_Some:
  "at_index (map Some ps) i = (if i < length ps then Some (ps ! i) else None)"
  by (simp add: at_index_def)

lemma pick_map_Some:
  "j < length ps \<Longrightarrow> pick (map Some ps) i j = Some (ps ! (if i < length ps then i else j))"
  by (simp add: pick_def at_index_map_Some)

lemma select_points_map_Some:
  assumes "20 \<le> length ps"
  shows "select_points (map Some ps) =
     Inr \<lparr>mouthLeft = ps ! (if 61 < length ps then 61 else 0),
          mouthRight = ps ! (if 291 < length ps then 291 else 1),
          upperLip = ps ! 13, lowerLip = ps ! 14, mouthCenter = ps ! 0,
          leftEye = ps ! (if 159 < length ps then 159 else 5),
          rightEye = ps ! (if 386 < length ps then 386 else 6),
          leftEyeTop = ps ! (if 159 < length ps then 159 else 7),
          leftEyeBottom = ps ! (if 145 < length ps then 145 else 8),
          rightEyeTop = ps ! (if 386 < length ps then 386 else 9),
          rightEyeBottom = ps ! (if 374 < length ps then 374 else 10),
          leftEyebrowOuter = ps ! (if 65 < length ps then 65 else 11),
          leftEyebrowInner = ps ! (if 105 < length ps then 105 else 12),
          rightEyebrowOuter = ps ! (if 295 < length ps then 295 else 13),
          rightEyebrowInner = ps ! (if 334 < length ps then 334 else 14)\<rparr>"
proof -
  have p: "pick (map Some ps) i j = Some (ps ! (if i < length ps then i else j))"
    if "j < 20" for i j
    using that assms by (intro pick_map_Some) simp
  have "ps \<noteq> []" using assms by auto
  then show ?thesis
    using assms by (simp add: select_points_def p deref_def and_then_def)
qed

lemma atan2_origin: "atan2 0 0 = 0"
  by (simp add: atan2_def)

lemma atan2_east: "atan2 0 1 = 0"
  by (simp add: atan2_def)

lemma distance_level: "distance (a, c) (b, c) = \<bar>b - a\<bar>"
  by (simp add: distance_def)

lemma distance_plumb: "distance (c, a) (c, b) = \<bar>b - a\<bar>"
  by (simp add: distance_def)

lemma length_tie: "length tie_points = 20"
  by (simp add: tie_points_def)

lemma length_parted: "length parted_points = 20"
  by (simp add: parted_points_def)

lemma features_tie:
  "extract_features (map Some tie_points) =
     Inr \<lparr>mouthWidth = 3, mouthHeight = 1, mouthCornerDiff = 0, isMouthTurnedDown = False,
          isMouthOpen = True, mouthRatio = 3, leftEyebrowHeight = 20,
          rightEyebrowHeight = 20, eyebrowRaised = False, eyebrowLowered = False,
          leftEyebrowAngle = 0, rightEyebrowAngle = 0, eyebrowsAngledInward = False,
          leftEyeOpenness = 16, rightEyeOpenness = 0, eyesWideOpen = True\<rparr>"
  by (simp add: extract_features_def select_points_map_Some length_tie and_then_def)
     (simp add: tie_points_def measure_face_def distance_level atan2_origin atan2_east)

lemma emotions_tie:
  "calculateEmotionsFromLandmarks (Some (map Some tie_points)) steady_draws =
     \<lparr>neutral = 1 / 29, happy = 12 / 29, sad = 2 / 29, angry = 2 / 29, surprised = 12 / 29\<rparr>"
  by (simp add: calculateEmotionsFromLandmarks_def length_tie try_block_def features_tie)
     (simp add: assign_scores_def calculateSadnessScore_def calculateAngerScore_def
        calculateSurpriseScore_def calculateHappinessScore_def add_noise_eq normalize_eq
        emotion_total_eq steady_draws_def default_emotions_def Let_def)

lemma steady_draws_random: "random_draws steady_draws"
  by (simp add: random_draws_def steady_draws_def)

section \<open>Facts about the dominant emotion\<close>

lemma reduce_keeps_last_maximum:
  fixes g :: "'a \<Rightarrow> real"
  defines "pick_later \<equiv> (\<lambda>a b. if g a > g b then a else b)"
  shows "\<exists>ys zs. x # xs = ys @ foldl pick_later x xs # zs
           \<and> (\<forall>y\<in>set ys. g y \<le> g (foldl pick_later x xs))
           \<and> (\<forall>z\<in>set zs. g z < g (foldl pick_later x xs))"
proof (induction xs rule: rev_induct)
  case Nil
  have "x # [] = [] @ foldl pick_later x [] # []" by simp
  moreover have "\<forall>y\<in>set []. g y \<le> g (foldl pick_later x [])" by simp
  moreover have "\<forall>z\<in>set []. g z < g (foldl pick_later x [])" by simp
  ultimately show ?case by (intro exI conjI)
next
  case (snoc b xs)
  let ?r = "foldl pick_later x xs"
  from snoc obtain ys zs where dec: "x # xs = ys @ ?r # zs"
    and before: "\<forall>y\<in>set ys. g y \<le> g ?r" and after: "\<forall>z\<in>set zs. g z < g ?r"
    by blast
  show ?case
  proof (cases "g ?r > g b")
    case True
    then have res: "foldl pick_later x (xs @ [b]) = ?r" by (simp add: pick_later_def)
    have "x # xs @ [b] = ys @ ?r # (zs @ [b])" using dec by simp
    moreover have "\<forall>y\<in>set ys. g y \<le> g ?r" by (rule before)
    moreover have "\<forall>z\<in>set (zs @ [b]). g z < g ?r" using after True by simp
    ultimately show ?thesis unfolding res by (intro exI conjI)
  next
    case False
    then have res: "foldl pick_later x (xs @ [b]) = b" by (simp add: pick_later_def)
    have "x # xs @ [b] = (x # xs) @ b # []" by simp
    moreover have "\<forall>y\<in>set (x # xs). g y \<le> g b"
    proof
      fix y assume "y \<in> set (x # xs)"
      then have "y \<in> set ys \<or> y = ?r \<or> y \<in> set zs" unfolding dec by auto
      then have "g y \<le> g ?r" using before after by fastforce
      then show "g y \<le> g b" using False by simp
    qed
    moreover have "\<forall>z\<in>set []. g z < g b" by simp
    ultimately show ?thesis unfolding res by (intro exI conjI)
  qed
qed

lemma label_index_keys: "map label_index emotion_keys = [0, 1, 2, 3, 4]"
  by (simp add: emotion_keys_def label_index_def)

lemma label_in_keys: "key \<in> set emotion_keys"
  by (cases key) (simp_all add: emotion_keys_def)

lemma dominant_split:
  obtains ys zs where "emotion_keys = ys @ dominantEmotion e # zs"
    and "\<forall>y\<in>set ys. emotion_get e y \<le> emotion_get e (dominantEmotion e)"
    and "\<forall>z\<in>set zs. emotion_get e z < emotion_get e (dominantEmotion e)"
proof -
  have "hd emotion_keys # tl emotion_keys = emotion_keys" by (simp add: emotion_keys_def)
  then show ?thesis
    using reduce_keeps_last_maximum [of "hd emotion_keys" "tl emotion_keys" "emotion_get e"] that
    unfolding dominantEmotion_def by auto
qed

section \<open>The emotion computation\<close>

text \<open>
  C1. For every landmark set of length at least 20 and every outcome of the five random
  draws, the distribution returned by \<open>calculateEmotionsFromLandmarks\<close> has every value
  at least 0, and its five values sum to 1 within \<open>1e-6\<close> (over the reals the sum is
  exactly 1).
\<close>

theorem C1_distribution_invariant:
  fixes lms :: landmarks and rnd :: draws
  assumes "20 \<le> length lms" and "random_draws rnd"
  defines "e \<equiv> calculateEmotionsFromLandmarks (Some lms) rnd"
  shows "0 \<le> neutral e \<and> 0 \<le> happy e \<and> 0 \<le> sad e \<and> 0 \<le> angry e \<and> 0 \<le> surprised e
    \<and> \<bar>neutral e + happy e + sad e + angry e + surprised e - 1\<bar> \<le> 1 / 10 ^ 6"
proof (cases "extract_features lms")
  case (Inl err)
  then have "e = default_emotions"
    using assms(1) by (simp add: e_def calculate_cases)
  then show ?thesis by (simp add: default_emotions_def)
next
  case (Inr f)
  let ?n = "add_noise rnd (assign_scores f default_emotions)"
  have e: "e = normalize ?n"
    using assms(1) Inr by (simp add: e_def calculate_cases)
  have "0 \<le> rnd Sad" using assms(2) by (simp add: random_draws_def)
  then have "0 < emotion_total ?n" by (rule scored_total_pos)
  then show ?thesis
    unfolding e using normalized_distribution [of ?n] add_noise_nonneg by simp
qed

theorem C1_distribution_invariant_witness:
  "20 \<le> length (map Some tie_points) \<and> random_draws steady_draws
   \<and> 0 \<le> neutral (calculateEmotionsFromLandmarks (Some (map Some tie_points)) steady_draws)
   \<and> \<bar>neutral (calculateEmotionsFromLandmarks (Some (map Some tie_points)) steady_draws)
       + happy (calculateEmotionsFromLandmarks (Some (map Some tie_points)) steady_draws)
       + sad (calculateEmotionsFromLandmarks (Some (map Some tie_points)) steady_draws)
       + angry (calculateEmotionsFromLandmarks (Some (map Some tie_points)) steady_draws)
       + surprised (calculateEmotionsFromLandmarks (Some (map Some tie_points)) steady_draws)
       - 1\<bar> \<le> 1 / 10 ^ 6"
proof -
  have len: "20 \<le> length (map Some tie_points)" by (simp add: length_tie)
  show ?thesis
    using len steady_draws_random C1_distribution_invariant [OF len steady_draws_random]
    by simp
qed

lemma mood_follows_dominant:
  "mood (handleFallbackDetection time rnd tr) =
     label_name (dominantEmotion (getRandomEmotions (cycle_position time) rnd))"
  "mood (detectionSettled (FirstFace landmarks) time rnd tr) =
     label_name (dominantEmotion (calculateEmotionsFromLandmarks landmarks rnd))"
  by (simp_all add: handleFallbackDetection_def detectionSettled_def Let_def)

text \<open>
  C3 (as amended). The dominant mood that a detection cycle selects from a distribution has
  a maximal value, and every label after it in the key order
  \<open>neutral, happy, sad, angry, surprised\<close> has a strictly smaller value: among tied
  maxima the reduction keeps the latest label, not the earliest.
\<close>

theorem C3_dominant_is_latest_argmax:
  "emotion_get e key \<le> emotion_get e (dominantEmotion e) \<and>
   (label_index (dominantEmotion e) < label_index key \<longrightarrow>
      emotion_get e key < emotion_get e (dominantEmotion e))"
proof -
  obtain ys zs where dec: "emotion_keys = ys @ dominantEmotion e # zs"
    and before: "\<forall>y\<in>set ys. emotion_get e y \<le> emotion_get e (dominantEmotion e)"
    and after: "\<forall>z\<in>set zs. emotion_get e z < emotion_get e (dominantEmotion e)"
    by (rule dominant_split)
  have mem: "key \<in> set ys \<or> key = dominantEmotion e \<or> key \<in> set zs"
    using label_in_keys [of key] unfolding dec by auto
  have le: "emotion_get e key \<le> emotion_get e (dominantEmotion e)"
  proof -
    consider "key \<in> set ys" | "key = dominantEmotion e" | "key \<in> set zs"
      using mem by blast
    then show ?thesis
    proof cases
      case 1 then show ?thesis using before by blast
    next
      case 2 then show ?thesis by simp
    next
      case 3 then have "emotion_get e key < emotion_get e (dominantEmotion e)"
        using after by blast
      then show ?thesis by simp
    qed
  qed
  have "sorted_wrt (<) (map label_index emotion_keys)" by (simp add: label_index_keys)
  then have idx: "\<forall>y\<in>set ys. label_index y < label_index (dominantEmotion e)"
    unfolding dec by (simp add: sorted_wrt_append)
  have "emotion_get e key < emotion_get e (dominantEmotion e)"
    if lt: "label_index (dominantEmotion e) < label_index key"
  proof -
    have "key \<notin> set ys"
    proof
      assume "key \<in> set ys"
      then have "label_index key < label_index (dominantEmotion e)" using idx by blast
      then show False using lt by simp
    qed
    moreover have "key \<noteq> dominantEmotion e" using lt by auto
    ultimately have "key \<in> set zs" using mem by blast
    then show ?thesis using after by blast
  qed
  then show ?thesis using le by blast
qed

theorem C3_dominant_is_latest_argmax_witness:
  "label_index (dominantEmotion default_emotions) < label_index Surprised
   \<and> emotion_get default_emotions Surprised
       < emotion_get default_emotions (dominantEmotion default_emotions)"
proof -
  have "dominantEmotion default_emotions = Happy"
    by (simp add: dominantEmotion_def default_emotions_def emotion_keys_def)
  then show ?thesis
    using C3_dominant_is_latest_argmax [of default_emotions Surprised]
    by (simp add: label_index_def)
qed

text \<open>
  C3 as stated fails: for the face \<open>tie_points\<close> and draws of 1/2 (zero jitter) the
  distribution has \<open>happy = surprised = 12/29\<close> as its maximum; the earliest such label
  is \<open>happy\<close>, the cycle selects \<open>surprised\<close>.
\<close>

theorem C3_earliest_tie_break_counterexample:
  "argmax_earliest (calculateEmotionsFromLandmarks (Some (map Some tie_points)) steady_draws)
     = Happy
   \<and> dominantEmotion (calculateEmotionsFromLandmarks (Some (map Some tie_points)) steady_draws)
     = Surprised"
  by (simp add: emotions_tie dominantEmotion_def argmax_earliest_def emotion_keys_def)

text \<open>
  C4. A missing landmark set, or one with fewer than 20 entries, yields exactly the default
  distribution, whatever the random draws (no jitter, no normalisation). For a landmark
  set of at least 20 points, feature extraction completes with the feature vector measured
  on the preferred mesh points where the set is long enough to hold them and on the
  low-index substitutes where it is not.
\<close>

theorem C4_default_and_fallback_points:
  "calculateEmotionsFromLandmarks None rnd =
     \<lparr>neutral = 0.17, happy = 0.50, sad = 0.10, angry = 0.08, surprised = 0.15\<rparr>
   \<and> (length lms < 20 \<longrightarrow>
        calculateEmotionsFromLandmarks (Some lms) rnd =
          \<lparr>neutral = 0.17, happy = 0.50, sad = 0.10, angry = 0.08, surprised = 0.15\<rparr>)
   \<and> (20 \<le> length ps \<longrightarrow>
        extract_features (map Some ps) =
          Inr (measure_face
            \<lparr>mouthLeft = ps ! (if 61 < length ps then 61 else 0),
             mouthRight = ps ! (if 291 < length ps then 291 else 1),
             upperLip = ps ! 13, lowerLip = ps ! 14, mouthCenter = ps ! 0,
             leftEye = ps ! (if 159 < length ps then 159 else 5),
             rightEye = ps ! (if 386 < length ps then 386 else 6),
             leftEyeTop = ps ! (if 159 < length ps then 159 else 7),
             leftEyeBottom = ps ! (if 145 < length ps then 145 else 8),
             rightEyeTop = ps ! (if 386 < length ps then 386 else 9),
             rightEyeBottom = ps ! (if 374 < length ps then 374 else 10),
             leftEyebrowOuter = ps ! (if 65 < length ps then 65 else 11),
             leftEyebrowInner = ps ! (if 105 < length ps then 105 else 12),
             rightEyebrowOuter = ps ! (if 295 < length ps then 295 else 13),
             rightEyebrowInner = ps ! (if 334 < length ps then 334 else 14)\<rparr>))"
proof (intro conjI impI)
  show "calculateEmotionsFromLandmarks None rnd =
     \<lparr>neutral = 0.17, happy = 0.50, sad = 0.10, angry = 0.08, surprised = 0.15\<rparr>"
    by (simp add: calculateEmotionsFromLandmarks_def default_emotions_def)
next
  assume "length lms < 20"
  then show "calculateEmotionsFromLandmarks (Some lms) rnd =
     \<lparr>neutral = 0.17, happy = 0.50, sad = 0.10, angry = 0.08, surprised = 0.15\<rparr>"
    by (simp add: calculateEmotionsFromLandmarks_def default_emotions_def)
next
  assume "20 \<le> length ps"
  then show "extract_features (map Some ps) =
          Inr (measure_face
            \<lparr>mouthLeft = ps ! (if 61 < length ps then 61 else 0),
             mouthRight = ps ! (if 291 < length ps then 291 else 1),
             upperLip = ps ! 13, lowerLip = ps ! 14, mouthCenter = ps ! 0,
             leftEye = ps ! (if 159 < length ps then 159 else 5),
             rightEye = ps ! (if 386 < length ps then 386 else 6),
             leftEyeTop = ps ! (if 159 < length ps then 159 else 7),
             leftEyeBottom = ps ! (if 145 < length ps then 145 else 8),
             rightEyeTop = ps ! (if 386 < length ps then 386 else 9),
             rightEyeBottom = ps ! (if 374 < length ps then 374 else 10),
             leftEyebrowOuter = ps ! (if 65 < length ps then 65 else 11),
             leftEyebrowInner = ps ! (if 105 < length ps then 105 else 12),
             rightEyebrowOuter = ps ! (if 295 < length ps then 295 else 13),
             rightEyebrowInner = ps ! (if 334 < length ps then 334 else 14)\<rparr>)"
    by (simp add: extract_features_def select_points_map_Some and_then_def)
qed

theorem C4_default_and_fallback_points_witness:
  "length (take 19 (map Some tie_points)) < 20
   \<and> calculateEmotionsFromLandmarks (Some (take 19 (map Some tie_points))) steady_draws =
       \<lparr>neutral = 0.17, happy = 0.50, sad = 0.10, angry = 0.08, surprised = 0.15\<rparr>
   \<and> 20 \<le> length tie_points
   \<and> \<not> isl (extract_features (map Some tie_points))"
  using C4_default_and_fallback_points
    [of steady_draws "take 19 (map Some tie_points)" tie_points]
  by (simp add: length_tie)

text \<open>
  C5 (as amended). Whenever feature extraction succeeds, the mouth width and height are
  the Euclidean distances between the two mouth corners and between the two lip points,
  and the mouth ratio is the width divided by the height, or by 1 when the height is 0.
  That is the width divided by \<open>max(height, 1)\<close> exactly when the height is 0, the height
  is at least 1, or the width is 0.
\<close>

theorem C5_mouth_ratio:
  assumes "extract_features lms = Inr f"
  shows "(\<exists>fp. select_points lms = Inr fp
           \<and> mouthWidth f = sqrt ((fst (mouthRight fp) - fst (mouthLeft fp))\<^sup>2
                                 + (snd (mouthRight fp) - snd (mouthLeft fp))\<^sup>2)
           \<and> mouthHeight f = sqrt ((fst (upperLip fp) - fst (lowerLip fp))\<^sup>2
                                  + (snd (upperLip fp) - snd (lowerLip fp))\<^sup>2))
    \<and> mouthRatio f = mouthWidth f / (if mouthHeight f = 0 then 1 else mouthHeight f)
    \<and> (mouthRatio f = mouthWidth f / max (mouthHeight f) 1
          \<longleftrightarrow> mouthHeight f = 0 \<or> 1 \<le> mouthHeight f \<or> mouthWidth f = 0)"
proof -
  from assms obtain fp where fp: "select_points lms = Inr fp" and f: "f = measure_face fp"
    by (auto simp: extract_features_def and_then_def split: sum.splits)
  have points: "\<exists>fp. select_points lms = Inr fp
           \<and> mouthWidth f = sqrt ((fst (mouthRight fp) - fst (mouthLeft fp))\<^sup>2
                                 + (snd (mouthRight fp) - snd (mouthLeft fp))\<^sup>2)
           \<and> mouthHeight f = sqrt ((fst (upperLip fp) - fst (lowerLip fp))\<^sup>2
                                  + (snd (upperLip fp) - snd (lowerLip fp))\<^sup>2)"
    using fp by (simp add: f measure_face_def distance_def Let_def)
  have ratio: "mouthRatio f = mouthWidth f / (if mouthHeight f = 0 then 1 else mouthHeight f)"
    by (simp add: f measure_face_def Let_def)
  have nonneg: "0 \<le> mouthHeight f"
    by (simp add: f measure_face_def distance_def Let_def)
  have agree: "mouthRatio f = mouthWidth f / max (mouthHeight f) 1
      \<longleftrightarrow> mouthHeight f = 0 \<or> 1 \<le> mouthHeight f \<or> mouthWidth f = 0"
  proof (cases "mouthHeight f = 0 \<or> 1 \<le> mouthHeight f")
    case True
    then show ?thesis unfolding ratio by (auto simp: max_def)
  next
    case False
    then have h: "0 < mouthHeight f" "mouthHeight f < 1" using nonneg by simp_all
    then have "mouthWidth f / mouthHeight f = mouthWidth f \<longleftrightarrow> mouthWidth f = 0"
      by (simp add: field_simps)
    then show ?thesis unfolding ratio using h False by (simp add: max_def)
  qed
  from points ratio agree show ?thesis by blast
qed

theorem C5_mouth_ratio_witness:
  "\<not> isl (extract_features (map Some tie_points))
   \<and> mouthWidth (projr (extract_features (map Some tie_points))) = 3
   \<and> mouthHeight (projr (extract_features (map Some tie_points))) = 1
   \<and> mouthRatio (projr (extract_features (map Some tie_points))) = 3 / max 1 1"
  using C5_mouth_ratio [of "map Some tie_points" "projr (extract_features (map Some tie_points))"]
  by (simp add: features_tie)

text \<open>
  C5 as stated fails: for a mouth 3 wide and 1/2 high the code's ratio is 6, while the
  width divided by \<open>max(height, 1)\<close> is 3.
\<close>

theorem C5_max_height_counterexample:
  "\<not> isl (extract_features (map Some parted_points))
   \<and> mouthWidth (projr (extract_features (map Some parted_points))) = 3
   \<and> mouthHeight (projr (extract_features (map Some parted_points))) = 1 / 2
   \<and> mouthRatio (projr (extract_features (map Some parted_points))) = 6
   \<and> mouthWidth (projr (extract_features (map Some parted_points)))
       / max (mouthHeight (projr (extract_features (map Some parted_points)))) 1 = 3"
  by (simp add: extract_features_def select_points_map_Some length_parted and_then_def)
     (simp add: parted_points_def measure_face_def Let_def distance_level distance_plumb)

text \<open>
  C9. \<open>calculateEmotionsFromLandmarks\<close> returns a distribution for every input, and
  whenever its \<open>try\<close> block throws, the value returned by the \<open>catch\<close> clause is the
  default distribution: the only operations that can throw precede every write to the
  \<open>emotions\<close> object.
\<close>

theorem C9_catch_returns_default:
  assumes "fst (try_block lms rnd default_emotions) = Inl err"
  shows "calculateEmotionsFromLandmarks (Some lms) rnd =
     \<lparr>neutral = 0.17, happy = 0.50, sad = 0.10, angry = 0.08, surprised = 0.15\<rparr>"
proof (cases "length lms < 20")
  case True
  then show ?thesis
    by (simp add: calculateEmotionsFromLandmarks_def default_emotions_def)
next
  case False
  from assms obtain err' where "extract_features lms = Inl err'"
    by (auto simp: try_block_def split: sum.splits)
  then show ?thesis
    using False by (simp add: calculate_cases default_emotions_def)
qed

theorem C9_catch_returns_default_witness:
  "fst (try_block (replicate 20 None) steady_draws default_emotions) = Inl TypeError
   \<and> calculateEmotionsFromLandmarks (Some (replicate 20 None)) steady_draws =
       \<lparr>neutral = 0.17, happy = 0.50, sad = 0.10, angry = 0.08, surprised = 0.15\<rparr>"
proof -
  have thrown: "fst (try_block (replicate 20 None) steady_draws default_emotions) = Inl TypeError"
    by (simp add: try_block_def extract_features_def select_points_def pick_def at_index_def
          deref_def and_then_def)
  show ?thesis
    using thrown C9_catch_returns_default [OF thrown] by simp
qed

section \<open>The fallback simulator\<close>

lemma js_rem_nonneg: "0 \<le> a \<Longrightarrow> js_rem a 30000 = a mod 30000"
  by (cases "a = 0") (simp_all add: js_rem_def)

lemma cycle_position_bounds:
  assumes "0 \<le> time"
  shows "cycle_position time = real_of_int (time mod 30000) / 30000"
    and "0 \<le> cycle_position time" and "cycle_position time < 1"
proof -
  show eq: "cycle_position time = real_of_int (time mod 30000) / 30000"
    using assms by (simp add: cycle_position_def js_rem_nonneg)
  have "0 \<le> time mod 30000" "time mod 30000 < 30000" by simp_all
  then have "0 \<le> real_of_int (time mod 30000)" "real_of_int (time mod 30000) < 30000"
    by linarith+
  then show "0 \<le> cycle_position time" "cycle_position time < 1"
    unfolding eq by simp_all
qed

lemma biased_profile_nonneg:
  assumes "random_draws rnd"
  shows "0 \<le> emotion_get (biased_profile cp rnd) key"
  using assms by (cases key) (simp_all add: biased_profile_def random_draws_def)

lemma biased_profile_total_pos:
  assumes "random_draws rnd"
  shows "0 < emotion_total (biased_profile cp rnd)"
proof -
  have "0 \<le> neutral (biased_profile cp rnd)" "0 \<le> happy (biased_profile cp rnd)"
    "0 \<le> sad (biased_profile cp rnd)" "0 \<le> angry (biased_profile cp rnd)"
    "0 \<le> surprised (biased_profile cp rnd)"
    using biased_profile_nonneg [OF assms, of cp Neutral]
      biased_profile_nonneg [OF assms, of cp Happy] biased_profile_nonneg [OF assms, of cp Sad]
      biased_profile_nonneg [OF assms, of cp Angry]
      biased_profile_nonneg [OF assms, of cp Surprised]
    by simp_all
  moreover have "0.3 \<le> neutral (biased_profile cp rnd)"
    using assms by (simp add: biased_profile_def random_draws_def)
  ultimately show ?thesis by (simp add: emotion_total_eq)
qed

lemma drawn_from_covers:
  assumes "lo < hi" "in_range lo hi v"
  shows "\<exists>draw. 0 \<le> draw \<and> draw < 1 \<and> drawn_from lo hi draw v"
proof -
  let ?d = "(v - lo) / (hi - lo)"
  have "0 \<le> ?d" "?d < 1" using assms by (simp_all add: in_range_def)
  moreover have "v = lo + ?d * (hi - lo)" using assms(1) by simp
  ultimately show ?thesis using assms(2) unfolding drawn_from_def by blast
qed

lemma happy_profile_ranges:
  assumes "random_draws rnd" "cp < 0.3"
  shows "drawn_from 0.3 0.5 (rnd Neutral) (neutral (biased_profile cp rnd))
    \<and> drawn_from 0.4 0.7 (rnd Happy) (happy (biased_profile cp rnd))
    \<and> drawn_from 0 0.2 (rnd Sad) (sad (biased_profile cp rnd))
    \<and> drawn_from 0 0.1 (rnd Angry) (angry (biased_profile cp rnd))
    \<and> drawn_from 0 0.1 (rnd Surprised) (surprised (biased_profile cp rnd))"
  using assms by (simp add: biased_profile_def random_draws_def in_range_def drawn_from_def)

lemma neutral_profile_ranges:
  assumes "random_draws rnd" "0.3 \<le> cp" "cp < 0.6"
  shows "drawn_from 0.6 0.8 (rnd Neutral) (neutral (biased_profile cp rnd))
    \<and> drawn_from 0.1 0.3 (rnd Happy) (happy (biased_profile cp rnd))
    \<and> drawn_from 0.1 0.2 (rnd Sad) (sad (biased_profile cp rnd))
    \<and> drawn_from 0 0.1 (rnd Angry) (angry (biased_profile cp rnd))
    \<and> drawn_from 0 0.1 (rnd Surprised) (surprised (biased_profile cp rnd))"
  using assms by (simp add: biased_profile_def random_draws_def in_range_def drawn_from_def)

lemma mixed_profile_ranges:
  assumes "random_draws rnd" "0.6 \<le> cp"
  shows "drawn_from 0.3 0.6 (rnd Neutral) (neutral (biased_profile cp rnd))
    \<and> drawn_from 0.1 0.4 (rnd Happy) (happy (biased_profile cp rnd))
    \<and> drawn_from 0.1 0.4 (rnd Sad) (sad (biased_profile cp rnd))
    \<and> drawn_from 0.05 0.2 (rnd Angry) (angry (biased_profile cp rnd))
    \<and> drawn_from 0.05 0.2 (rnd Surprised) (surprised (biased_profile cp rnd))"
  using assms by (simp add: biased_profile_def random_draws_def in_range_def drawn_from_def)

text \<open>
  C7. For every clock reading, with \<open>cp = (time % 30000) / 30000\<close> (which for a
  non-negative reading is \<open>(time mod 30000) / 30000\<close>, in \<open>[0, 1)\<close>): the values drawn
  before normalisation lie in the ranges of the happy-biased profile when \<open>cp\<close> is in
  \<open>[0, 0.3)\<close>, of the neutral-biased profile in \<open>[0.3, 0.6)\<close>, of the mixed profile in
  \<open>[0.6, 1)\<close>, each value being the lower end of its range plus the draw from \<open>[0, 1)\<close> made
  for that label times the width of the range (so a uniform draw gives a value uniform
  on the range); the distribution stored by the fallback is these values divided by their sum,
  every value is at least 0 and the five sum to 1.
\<close>

theorem C7_fallback_simulator:
  fixes time :: int and rnd :: draws
  assumes "random_draws rnd"
  defines "cp \<equiv> cycle_position time"
  defines "raw \<equiv> biased_profile cp rnd"
  defines "e \<equiv> getRandomEmotions cp rnd"
  shows "(0 \<le> time \<longrightarrow> cp = real_of_int (time mod 30000) / 30000 \<and> 0 \<le> cp \<and> cp < 1)
    \<and> (0 \<le> cp \<and> cp < 0.3 \<longrightarrow>
          drawn_from 0.3 0.5 (rnd Neutral) (neutral raw) \<and> drawn_from 0.4 0.7 (rnd Happy) (happy raw)
          \<and> drawn_from 0 0.2 (rnd Sad) (sad raw) \<and> drawn_from 0 0.1 (rnd Angry) (angry raw)
          \<and> drawn_from 0 0.1 (rnd Surprised) (surprised raw))
    \<and> (0.3 \<le> cp \<and> cp < 0.6 \<longrightarrow>
          drawn_from 0.6 0.8 (rnd Neutral) (neutral raw) \<and> drawn_from 0.1 0.3 (rnd Happy) (happy raw)
          \<and> drawn_from 0.1 0.2 (rnd Sad) (sad raw) \<and> drawn_from 0 0.1 (rnd Angry) (angry raw)
          \<and> drawn_from 0 0.1 (rnd Surprised) (surprised raw))
    \<and> (0.6 \<le> cp \<and> cp < 1 \<longrightarrow>
          drawn_from 0.3 0.6 (rnd Neutral) (neutral raw) \<and> drawn_from 0.1 0.4 (rnd Happy) (happy raw)
          \<and> drawn_from 0.1 0.4 (rnd Sad) (sad raw) \<and> drawn_from 0.05 0.2 (rnd Angry) (angry raw)
          \<and> drawn_from 0.05 0.2 (rnd Surprised) (surprised raw))
    \<and> emotionScores (handleFallbackDetection time rnd tr) = Some e
    \<and> e = \<lparr>neutral = neutral raw / emotion_total raw, happy = happy raw / emotion_total raw,
            sad = sad raw / emotion_total raw, angry = angry raw / emotion_total raw,
            surprised = surprised raw / emotion_total raw\<rparr>
    \<and> 0 \<le> neutral e \<and> 0 \<le> happy e \<and> 0 \<le> sad e \<and> 0 \<le> angry e \<and> 0 \<le> surprised e
    \<and> neutral e + happy e + sad e + angry e + surprised e = 1"
proof -
  have position: "0 \<le> time \<longrightarrow> cp = real_of_int (time mod 30000) / 30000 \<and> 0 \<le> cp \<and> cp < 1"
    unfolding cp_def using cycle_position_bounds [of time] by blast
  have stored: "emotionScores (handleFallbackDetection time rnd tr) = Some e"
    by (simp add: handleFallbackDetection_def e_def cp_def Let_def)
  have shape: "e = \<lparr>neutral = neutral raw / emotion_total raw,
      happy = happy raw / emotion_total raw, sad = sad raw / emotion_total raw,
      angry = angry raw / emotion_total raw, surprised = surprised raw / emotion_total raw\<rparr>"
    unfolding e_def raw_def getRandomEmotions_def by (rule normalize_eq)
  have "0 < emotion_total raw" unfolding raw_def using assms(1) by (rule biased_profile_total_pos)
  moreover have "0 \<le> emotion_get raw key" for key
    unfolding raw_def using assms(1) by (rule biased_profile_nonneg)
  ultimately have dist: "0 \<le> neutral e \<and> 0 \<le> happy e \<and> 0 \<le> sad e \<and> 0 \<le> angry e
      \<and> 0 \<le> surprised e \<and> neutral e + happy e + sad e + angry e + surprised e = 1"
    unfolding e_def getRandomEmotions_def raw_def [symmetric]
    by (rule normalized_distribution)
  show ?thesis
    using position stored shape dist
      happy_profile_ranges [OF assms(1), of cp] neutral_profile_ranges [OF assms(1), of cp]
      mixed_profile_ranges [OF assms(1), of cp]
    unfolding raw_def by blast
qed

theorem C7_fallback_simulator_witness:
  "random_draws steady_draws
   \<and> 0 \<le> cycle_position 1000 \<and> cycle_position 1000 < 0.3
   \<and> drawn_from 0.4 0.7 (steady_draws Happy) (happy (biased_profile (cycle_position 1000) steady_draws))
   \<and> 0.3 \<le> cycle_position 12000 \<and> cycle_position 12000 < 0.6
   \<and> drawn_from 0.6 0.8 (steady_draws Neutral) (neutral (biased_profile (cycle_position 12000) steady_draws))
   \<and> 0.6 \<le> cycle_position 54000 \<and> cycle_position 54000 < 1
   \<and> drawn_from 0.1 0.4 (steady_draws Sad) (sad (biased_profile (cycle_position 54000) steady_draws))
   \<and> neutral (getRandomEmotions (cycle_position 54000) steady_draws)
       + happy (getRandomEmotions (cycle_position 54000) steady_draws)
       + sad (getRandomEmotions (cycle_position 54000) steady_draws)
       + angry (getRandomEmotions (cycle_position 54000) steady_draws)
       + surprised (getRandomEmotions (cycle_position 54000) steady_draws) = 1"
proof -
  have positions: "cycle_position 1000 = 1 / 30" "cycle_position 12000 = 2 / 5"
    "cycle_position 54000 = 4 / 5"
    by (simp_all add: cycle_position_def js_rem_def)
  have bounds: "0 \<le> cycle_position 1000 \<and> cycle_position 1000 < 0.3"
    "0.3 \<le> cycle_position 12000 \<and> cycle_position 12000 < 0.6"
    "0.6 \<le> cycle_position 54000 \<and> cycle_position 54000 < 1"
    by (simp_all add: positions)
  have "drawn_from 0.4 0.7 (steady_draws Happy) (happy (biased_profile (cycle_position 1000) steady_draws))"
    using C7_fallback_simulator [OF steady_draws_random, where time = 1000] bounds(1)
    by blast
  moreover
  have "drawn_from 0.6 0.8 (steady_draws Neutral) (neutral (biased_profile (cycle_position 12000) steady_draws))"
    using C7_fallback_simulator [OF steady_draws_random, where time = 12000] bounds(2)
    by blast
  moreover
  have "drawn_from 0.1 0.4 (steady_draws Sad) (sad (biased_profile (cycle_position 54000) steady_draws))
    \<and> neutral (getRandomEmotions (cycle_position 54000) steady_draws)
       + happy (getRandomEmotions (cycle_position 54000) steady_draws)
       + sad (getRandomEmotions (cycle_position 54000) steady_draws)
       + angry (getRandomEmotions (cycle_position 54000) steady_draws)
       + surprised (getRandomEmotions (cycle_position 54000) steady_draws) = 1"
    using C7_fallback_simulator [OF steady_draws_random, where time = 54000] bounds(3)
    by blast
  ultimately show ?thesis
    using steady_draws_random bounds by blast
qed

section \<open>The detection scheduler\<close>

lemma runDetection_ai:
  assumes "capture_live tr" "useAIMode tr"
  shows "runDetection time rnd tr = tr\<lparr>isDetecting := True, pending := pending tr + 1\<rparr>"
  using assms by (simp add: runDetection_def useAIMode_def Let_def)

lemma runDetection_fallback:
  assumes "capture_live tr" "\<not> useAIMode tr"
  shows "runDetection time rnd tr =
     handleFallbackDetection time rnd (tr\<lparr>isDetecting := True\<rparr>)"
proof -
  have "useAIMode (tr\<lparr>isDetecting := True\<rparr>) = useAIMode tr" by (simp add: useAIMode_def)
  then show ?thesis using assms by (simp add: runDetection_def Let_def)
qed

lemma runDetection_ai_keeps:
  assumes "capture_live tr" "useAIMode tr"
  shows "capture_live (runDetection time rnd tr)" "useAIMode (runDetection time rnd tr)"
  using assms by (simp_all add: runDetection_ai) (simp_all add: capture_live_def useAIMode_def)

lemma ticks_accumulate:
  assumes "capture_live tr" "useAIMode tr"
  shows "capture_live ((runDetection time rnd ^^ n) tr)
    \<and> useAIMode ((runDetection time rnd ^^ n) tr)
    \<and> pending ((runDetection time rnd ^^ n) tr) = pending tr + n"
proof (induction n)
  case 0
  show ?case using assms by simp
next
  case (Suc n)
  then show ?case
    by (simp add: runDetection_ai_keeps) (simp add: runDetection_ai)
qed

text \<open>
  C2, evaluated at two ticks in AI mode with capture live: the first tick sets
  \<open>isDetecting\<close> and puts one cycle in flight; the second tick, arriving before that cycle
  has settled, is not skipped, and two cycles are in flight. The guard of \<open>runDetection\<close>
  does not read the flag.
\<close>

theorem C2_second_tick_starts_second_cycle:
  "isDetecting (runDetection 0 steady_draws armed_tracker)
   \<and> pending (runDetection 0 steady_draws armed_tracker) = 1
   \<and> runDetection 50 steady_draws (runDetection 0 steady_draws armed_tracker)
       \<noteq> runDetection 0 steady_draws armed_tracker
   \<and> pending (runDetection 50 steady_draws (runDetection 0 steady_draws armed_tracker)) = 2"
proof -
  have first: "runDetection 0 steady_draws armed_tracker =
      armed_tracker\<lparr>isDetecting := True, pending := 1\<rparr>"
    by (simp add: runDetection_def capture_live_def useAIMode_def armed_tracker_def
          initial_tracker_def Let_def)
  have second: "runDetection 50 steady_draws (armed_tracker\<lparr>isDetecting := True, pending := 1\<rparr>)
      = armed_tracker\<lparr>isDetecting := True, pending := 2\<rparr>"
    by (simp add: runDetection_def capture_live_def useAIMode_def armed_tracker_def
          initial_tracker_def Let_def)
  have "pending (runDetection 50 steady_draws (runDetection 0 steady_draws armed_tracker)) = 2"
    unfolding first second by simp
  moreover have "pending (runDetection 0 steady_draws armed_tracker) = 1"
    unfolding first by simp
  moreover have "isDetecting (runDetection 0 steady_draws armed_tracker)"
    unfolding first by simp
  moreover have "runDetection 50 steady_draws (runDetection 0 steady_draws armed_tracker)
       \<noteq> runDetection 0 steady_draws armed_tracker"
  proof
    assume "runDetection 50 steady_draws (runDetection 0 steady_draws armed_tracker)
       = runDetection 0 steady_draws armed_tracker"
    then have "pending (runDetection 50 steady_draws (runDetection 0 steady_draws armed_tracker))
       = pending (runDetection 0 steady_draws armed_tracker)"
      by simp
    then show False unfolding first second by simp
  qed
  ultimately show ?thesis by blast
qed

section \<open>Model loading\<close>

lemma timer_never_rejects:
  "foldl (deliver src created_script) p events = Rejected (''Script load timeout: '' @ src)
     \<Longrightarrow> p = Rejected (''Script load timeout: '' @ src)"
proof (induction events arbitrary: p)
  case Nil
  then show ?case by simp
next
  case (Cons ev events)
  then have "deliver src created_script p ev = Rejected (''Script load timeout: '' @ src)"
    by simp
  then show ?case
    by (cases ev) (auto simp: created_script_def settle_def split: if_splits)
qed

lemma loadScript_never_times_out:
  "loadScript src events \<noteq> Rejected (''Script load timeout: '' @ src)"
  using timer_never_rejects [of src Pending events] by (auto simp: loadScript_def)

lemma no_tick_after_load_failure:
  "runDetection time rnd (load_failed message tr) = load_failed message tr"
  by (simp add: runDetection_def capture_live_def load_failed_def startVideo_def)

lemma script_error_degrades:
  assumes "loadScript tf_url tf = Rejected message"
  shows "captureRequests (loadLibraries tf faceLib handLib models tr) = captureRequests tr + 1"
    and "\<not> useAIMode tr \<Longrightarrow> \<not> useAIMode (loadLibraries tf faceLib handLib models tr)"
  using assms
  by (simp_all add: loadLibraries_def load_failed_def startVideo_def useAIMode_def Let_def)

text \<open>
  C6, evaluated at a script that neither loads nor fails: when the 10-second timer fires,
  the promise of \<open>loadScript\<close> is still pending, and \<open>loadLibraries\<close> has neither started
  capture nor marked the models as loaded nor recorded an error. A script that loads after
  the timer has fired still fulfils the promise.
\<close>

theorem C6_stalled_script_never_fails:
  "loadScript tf_url [TimerFired] = Pending
   \<and> loadScript tf_url [TimerFired, LoadEvent] = Fulfilled
   \<and> loadLibraries [TimerFired] [LoadEvent, TimerFired] [LoadEvent, TimerFired] Fulfilled
        initial_tracker = initial_tracker
   \<and> captureRequests
        (loadLibraries [LoadEvent, TimerFired] [LoadEvent, TimerFired] [TimerFired] Fulfilled
           initial_tracker) = 0"
  by (simp add: loadScript_def created_script_def settle_def loadLibraries_def
        initial_tracker_def Let_def)

section \<open>The persistence API\<close>

lemma history_sorted:
  "sorted_wrt (\<lambda>a b. log_timestamp b \<le> log_timestamp a)
     (sort_key (\<lambda>d. - log_timestamp d) xs)"
proof -
  have "sorted (map (\<lambda>d. - log_timestamp d) (sort_key (\<lambda>d. - log_timestamp d) xs))"
    by (rule sorted_sort_key)
  then show ?thesis by (simp add: sorted_map)
qed

lemma newest_goes_first:
  assumes "\<forall>d\<in>set xs. log_timestamp d < log_timestamp x"
  shows "sort_key (\<lambda>d. - log_timestamp d) (xs @ [x]) =
     x # sort_key (\<lambda>d. - log_timestamp d) xs"
  using assms by (induction xs) simp_all

lemma beyond_the_cap:
  assumes "sorted_wrt (\<lambda>a b. log_timestamp b \<le> log_timestamp a) full"
    and "d \<in> set full" and "d \<notin> set (take n full)" and "x \<in> set (take n full)"
  shows "log_timestamp d \<le> log_timestamp x"
proof -
  have "full = take n full @ drop n full" by simp
  then have "sorted_wrt (\<lambda>a b. log_timestamp b \<le> log_timestamp a) (take n full @ drop n full)"
    using assms(1) by simp
  then have later: "\<forall>a\<in>set (take n full). \<forall>b\<in>set (drop n full).
      log_timestamp b \<le> log_timestamp a"
    unfolding sorted_wrt_append by blast
  have "set full = set (take n full) \<union> set (drop n full)"
    using set_append [of "take n full" "drop n full"] by simp
  then have "d \<in> set (drop n full)" using assms(2,3) by blast
  then show ?thesis using later assms(4) by blast
qed

lemma addMoodLog_saved:
  assumes "addMoodLog now body st = (LogReply status saved, st')"
  shows "status = 200" and "docs st' = docs st @ [saved]" and "reachable st'"
  using assms
  by (auto simp: addMoodLog_def Let_def split: option.splits if_splits)

text \<open>
  C8 (as amended). A successful \<open>POST /api/moods/log\<close> returns 200 with the stored record,
  and the next \<open>GET /api/moods/history\<close> returns at most 20 stored records ordered by
  timestamp, newest first, none of the records left out being newer than a record
  returned; the just-saved record is at index 0 when its timestamp is later than that of
  every record stored before it.
\<close>

theorem C8_save_then_history:
  assumes "addMoodLog now body st = (LogReply status saved, st')"
  shows "status = 200 \<and> docs st' = docs st @ [saved]
    \<and> (\<exists>h. getMoodHistory st' = HistoryReply 200 h
          \<and> length h \<le> 20
          \<and> sorted_wrt (\<lambda>a b. log_timestamp b \<le> log_timestamp a) h
          \<and> set h \<subseteq> set (docs st')
          \<and> (\<forall>d\<in>set (docs st'). d \<notin> set h \<longrightarrow>
                (\<forall>x\<in>set h. log_timestamp d \<le> log_timestamp x))
          \<and> ((\<forall>d\<in>set (docs st). log_timestamp d < log_timestamp saved) \<longrightarrow>
                h \<noteq> [] \<and> h ! 0 = saved))"
proof -
  let ?full = "sort_key (\<lambda>d. - log_timestamp d) (docs st')"
  let ?h = "take 20 ?full"
  note saved = addMoodLog_saved [OF assms]
  have sorted_full: "sorted_wrt (\<lambda>a b. log_timestamp b \<le> log_timestamp a) ?full"
    by (rule history_sorted)
  have reply: "getMoodHistory st' = HistoryReply 200 ?h"
    using saved(3) by (simp add: getMoodHistory_def)
  have len: "length ?h \<le> 20" by simp
  have sorted_h: "sorted_wrt (\<lambda>a b. log_timestamp b \<le> log_timestamp a) ?h"
    using sorted_full by (rule sorted_wrt_take)
  have sub: "set ?h \<subseteq> set (docs st')"
    using set_take_subset [of 20 ?full] by simp
  have newest: "\<forall>d\<in>set (docs st'). d \<notin> set ?h \<longrightarrow>
      (\<forall>x\<in>set ?h. log_timestamp d \<le> log_timestamp x)"
  proof (intro ballI impI)
    fix d x
    assume "d \<in> set (docs st')" and out: "d \<notin> set ?h" and inside: "x \<in> set ?h"
    then have "d \<in> set ?full" by simp
    with sorted_full show "log_timestamp d \<le> log_timestamp x"
      using out inside by (rule beyond_the_cap)
  qed
  have first: "(\<forall>d\<in>set (docs st). log_timestamp d < log_timestamp saved) \<longrightarrow>
      ?h \<noteq> [] \<and> ?h ! 0 = saved"
  proof
    assume "\<forall>d\<in>set (docs st). log_timestamp d < log_timestamp saved"
    then have "?full = saved # sort_key (\<lambda>d. - log_timestamp d) (docs st)"
      unfolding saved(2) by (rule newest_goes_first)
    then show "?h \<noteq> [] \<and> ?h ! 0 = saved" by simp
  qed
  show ?thesis
    using saved(1,2) reply len sorted_h sub newest first by blast
qed

theorem C8_save_then_history_witness:
  "addMoodLog 5000 fresh_body seeded_store =
     (LogReply 200 fresh_log, seeded_store\<lparr>docs := [newer_log, fresh_log], next_id := 2\<rparr>)
   \<and> log_timestamp newer_log < log_timestamp fresh_log
   \<and> (\<exists>h. getMoodHistory (seeded_store\<lparr>docs := [newer_log, fresh_log], next_id := 2\<rparr>)
             = HistoryReply 200 h
          \<and> length h \<le> 20 \<and> h ! 0 = fresh_log)"
proof -
  have post: "addMoodLog 5000 fresh_body seeded_store =
     (LogReply 200 fresh_log, seeded_store\<lparr>docs := [newer_log, fresh_log], next_id := 2\<rparr>)"
    by (simp add: addMoodLog_def fresh_body_def seeded_store_def fresh_log_def
          timestamp_of_def cast_date_def Let_def)
  have older: "\<forall>d\<in>set (docs seeded_store). log_timestamp d < log_timestamp fresh_log"
    by (simp add: seeded_store_def newer_log_def fresh_log_def)
  have "log_timestamp newer_log < log_timestamp fresh_log"
    by (simp add: newer_log_def fresh_log_def)
  then show ?thesis
    using post older C8_save_then_history [OF post] by blast
qed

text \<open>
  C8 as stated fails: with a record stamped 2000 in the store, a request stamped 1000 is
  saved with status 200, and the next history has the older record at index 0 and the
  just-saved record at index 1.
\<close>

theorem C8_backdated_record_counterexample:
  "addMoodLog 5000 backdated_body seeded_store =
     (LogReply 200 backdated_log,
      seeded_store\<lparr>docs := [newer_log, backdated_log], next_id := 2\<rparr>)
   \<and> getMoodHistory (seeded_store\<lparr>docs := [newer_log, backdated_log], next_id := 2\<rparr>)
       = HistoryReply 200 [newer_log, backdated_log]
   \<and> [newer_log, backdated_log] ! 0 \<noteq> backdated_log"
  by (simp add: addMoodLog_def getMoodHistory_def backdated_body_def seeded_store_def
        backdated_log_def newer_log_def timestamp_of_def cast_date_def Let_def)

section \<open>Saving from the component\<close>

lemma history_stays_capped:
  "length (history tr) \<le> 20 \<Longrightarrow> length (history (saveSettled res tr)) \<le> 20"
  by (auto simp: saveSettled_def split: fetch_result.splits reply.splits)

text \<open>
  C10. When no mood has been detected (\<open>mood\<close> is the empty string), the save action posts
  no request and leaves the whole component state, the history buffer and the notes
  included, unchanged.
\<close>

theorem C10_save_without_mood:
  assumes "mood tr = []"
  shows "handleSaveMood now tr = None \<and> save_action now server tr = ([], tr)"
  using assms by (simp add: handleSaveMood_def save_action_def)

theorem C10_save_without_mood_witness:
  "mood initial_tracker = []
   \<and> save_action 0 (\<lambda>body. Answer (fst (addMoodLog 0 body seeded_store))) initial_tracker
       = ([], initial_tracker)"
proof -
  have empty: "mood initial_tracker = []" by (simp add: initial_tracker_def)
  show ?thesis
    using empty C10_save_without_mood [OF empty] by simp
qed

end
